theory Spec2Isabelle
  imports Complex_Main
begin

section \<open>Device conditions for sensors\<close>

text \<open>
  A shallow embedding of \<^verbatim>\<open>homeassistant/components/sensor/device_condition.py\<close>.
  Python dictionaries are maps, exceptions are the left summand of a sum type, and
  every service of the host platform that the module calls is a field of a record
  that the functions take as an argument.
\<close>

subsection \<open>Python values, dictionaries and exceptions\<close>

text \<open>
  The values a configuration dictionary holds: strings (entity ids, condition types)
  and the float-coerced bounds. The module only copies bounds, so the type of floats
  is a parameter. Strings are byte strings (UTF-8).
\<close>

datatype 'f pyval = Str string | Float 'f

type_synonym 'f ConfigType = "string \<rightharpoonup> 'f pyval"

text \<open>The exception classes the module raises, catches or lets through.\<close>

datatype exn =
    HomeAssistantError string
  | InvalidDeviceAutomationConfig string
  | KeyError string
  | Invalid string

text \<open>Truthiness of an optional string: \<^verbatim>\<open>None\<close> and \<^verbatim>\<open>""\<close> are falsy.\<close>

fun truthy :: "string option \<Rightarrow> bool" where
  "truthy None = False"
| "truthy (Some s) = (s \<noteq> [])"

text \<open>\<^verbatim>\<open>a or b\<close> on an optional string and a string.\<close>

definition py_or :: "string option \<Rightarrow> string \<Rightarrow> string" where
  "py_or a b = (if truthy a then the a else b)"

text \<open>
  A dictionary display \<^verbatim>\<open>{k1: v1, k2: v2, ...}\<close>: the items are stored from left
  to right, so a later item replaces an earlier one with an equal key.
\<close>

definition dict_of :: "('k \<times> 'v) list \<Rightarrow> ('k \<rightharpoonup> 'v)" where
  "dict_of items = fold (\<lambda>(k, v) m. m(k \<mapsto> v)) items Map.empty"

subsection \<open>Constants of the host and of the sensor package\<close>

text \<open>
  Modelled from the spec: the key names of \<^verbatim>\<open>homeassistant.const\<close> and of
  \<^verbatim>\<open>helpers.condition\<close>, whose declarations are not part of the excerpt. They are
  the field names the specification uses: the entity id, the condition type, the
  above and below bounds and the condition kind.
\<close>

definition CONF_ABOVE :: string where "CONF_ABOVE = ''above''"
definition CONF_BELOW :: string where "CONF_BELOW = ''below''"
definition CONF_ENTITY_ID :: string where "CONF_ENTITY_ID = ''entity_id''"
definition CONF_TYPE :: string where "CONF_TYPE = ''type''"
definition CONF_CONDITION :: string where "CONF_CONDITION = ''condition''"

text \<open>
  Modelled from the spec: \<^verbatim>\<open>DOMAIN\<close> of the sensor package (\<^verbatim>\<open>from . import DOMAIN\<close>;
  the package's own module is not part of the excerpt): the sensor domain.
\<close>

definition DOMAIN :: string where "DOMAIN = ''sensor''"

text \<open>
  Modelled from the spec: \<^verbatim>\<open>SensorDeviceClass\<close>, the string enumeration of quantity
  classifications of the sensor package (not part of the excerpt). A member compares
  and hashes as its string value, which is the classification tag the host reports
  for an entity (\<^verbatim>\<open>temperature\<close>, \<^verbatim>\<open>power\<close>, \<^verbatim>\<open>humidity\<close>, ...). Only the members
  the module mentions are listed.
\<close>

datatype member =
    APPARENT_POWER | BATTERY | CO | CO2 | CURRENT | ENERGY | FREQUENCY | GAS
  | HUMIDITY | ILLUMINANCE | NITROGEN_DIOXIDE | NITROGEN_MONOXIDE | NITROUS_OXIDE
  | OZONE | POWER | POWER_FACTOR | PM1 | PM10 | PM25 | PRESSURE | REACTIVE_POWER
  | SIGNAL_STRENGTH | SULPHUR_DIOXIDE | TEMPERATURE | VOLATILE_ORGANIC_COMPOUNDS
  | VOLTAGE

fun SensorDeviceClass :: "member \<Rightarrow> string" where
  "SensorDeviceClass APPARENT_POWER = ''apparent_power''"
| "SensorDeviceClass BATTERY = ''battery''"
| "SensorDeviceClass CO = ''carbon_monoxide''"
| "SensorDeviceClass CO2 = ''carbon_dioxide''"
| "SensorDeviceClass CURRENT = ''current''"
| "SensorDeviceClass ENERGY = ''energy''"
| "SensorDeviceClass FREQUENCY = ''frequency''"
| "SensorDeviceClass GAS = ''gas''"
| "SensorDeviceClass HUMIDITY = ''humidity''"
| "SensorDeviceClass ILLUMINANCE = ''illuminance''"
| "SensorDeviceClass NITROGEN_DIOXIDE = ''nitrogen_dioxide''"
| "SensorDeviceClass NITROGEN_MONOXIDE = ''nitrogen_monoxide''"
| "SensorDeviceClass NITROUS_OXIDE = ''nitrous_oxide''"
| "SensorDeviceClass OZONE = ''ozone''"
| "SensorDeviceClass POWER = ''power''"
| "SensorDeviceClass POWER_FACTOR = ''power_factor''"
| "SensorDeviceClass PM1 = ''pm1''"
| "SensorDeviceClass PM10 = ''pm10''"
| "SensorDeviceClass PM25 = ''pm25''"
| "SensorDeviceClass PRESSURE = ''pressure''"
| "SensorDeviceClass REACTIVE_POWER = ''reactive_power''"
| "SensorDeviceClass SIGNAL_STRENGTH = ''signal_strength''"
| "SensorDeviceClass SULPHUR_DIOXIDE = ''sulphur_dioxide''"
| "SensorDeviceClass TEMPERATURE = ''temperature''"
| "SensorDeviceClass VOLATILE_ORGANIC_COMPOUNDS = ''volatile_organic_compounds''"
| "SensorDeviceClass VOLTAGE = ''voltage''"

subsection \<open>The host's services\<close>

text \<open>An entry of the entity registry: its owning integration domain and its entity id.\<close>

record RegistryEntry =
  domain :: string
  entity_id :: string

text \<open>
  The services of the host that the module consumes, as the specification's external
  interfaces give them: the registry's entries of a device, in order; the device class
  of an entity, if any; the unit of measurement of an entity, if any, a lookup that may
  raise. A lookup receives the Python object the caller passes as entity id.
\<close>

record 'f HomeAssistant =
  async_entries_for_device :: "string \<Rightarrow> RegistryEntry list"
  get_device_class :: "'f pyval \<Rightarrow> string option"
  get_unit_of_measurement :: "'f pyval \<Rightarrow> exn + string option"

text \<open>
  The host's numeric-state condition: its schema, its configuration normaliser (which
  reads the host) and its factory of checker objects, of a type \<open>'c\<close>.
\<close>

record ('f, 'c) numeric_state =
  NUMERIC_STATE_CONDITION_SCHEMA :: "'f ConfigType \<Rightarrow> exn + 'f ConfigType"
  numeric_state_validate_config :: "'f HomeAssistant \<Rightarrow> 'f ConfigType \<Rightarrow> exn + 'f ConfigType"
  async_numeric_state_from_config :: "'f ConfigType \<Rightarrow> exn + 'c"

subsection \<open>The table of condition templates\<close>

definition DEVICE_CLASS_NONE :: string where "DEVICE_CLASS_NONE = ''none''"

definition CONF_IS_APPARENT_POWER :: string where "CONF_IS_APPARENT_POWER = ''is_apparent_power''"
definition CONF_IS_BATTERY_LEVEL :: string where "CONF_IS_BATTERY_LEVEL = ''is_battery_level''"
definition CONF_IS_CO :: string where "CONF_IS_CO = ''is_carbon_monoxide''"
definition CONF_IS_CO2 :: string where "CONF_IS_CO2 = ''is_carbon_dioxide''"
definition CONF_IS_CURRENT :: string where "CONF_IS_CURRENT = ''is_current''"
definition CONF_IS_ENERGY :: string where "CONF_IS_ENERGY = ''is_energy''"
definition CONF_IS_FREQUENCY :: string where "CONF_IS_FREQUENCY = ''is_frequency''"
definition CONF_IS_HUMIDITY :: string where "CONF_IS_HUMIDITY = ''is_humidity''"
definition CONF_IS_GAS :: string where "CONF_IS_GAS = ''is_gas''"
definition CONF_IS_ILLUMINANCE :: string where "CONF_IS_ILLUMINANCE = ''is_illuminance''"
definition CONF_IS_NITROGEN_DIOXIDE :: string where "CONF_IS_NITROGEN_DIOXIDE = ''is_nitrogen_dioxide''"
definition CONF_IS_NITROGEN_MONOXIDE :: string where "CONF_IS_NITROGEN_MONOXIDE = ''is_nitrogen_monoxide''"
definition CONF_IS_NITROUS_OXIDE :: string where "CONF_IS_NITROUS_OXIDE = ''is_nitrous_oxide''"
definition CONF_IS_OZONE :: string where "CONF_IS_OZONE = ''is_ozone''"
definition CONF_IS_PM1 :: string where "CONF_IS_PM1 = ''is_pm1''"
definition CONF_IS_PM10 :: string where "CONF_IS_PM10 = ''is_pm10''"
definition CONF_IS_PM25 :: string where "CONF_IS_PM25 = ''is_pm25''"
definition CONF_IS_POWER :: string where "CONF_IS_POWER = ''is_power''"
definition CONF_IS_POWER_FACTOR :: string where "CONF_IS_POWER_FACTOR = ''is_power_factor''"
definition CONF_IS_PRESSURE :: string where "CONF_IS_PRESSURE = ''is_pressure''"
definition CONF_IS_REACTIVE_POWER :: string where "CONF_IS_REACTIVE_POWER = ''is_reactive_power''"
definition CONF_IS_SIGNAL_STRENGTH :: string where "CONF_IS_SIGNAL_STRENGTH = ''is_signal_strength''"
definition CONF_IS_SULPHUR_DIOXIDE :: string where "CONF_IS_SULPHUR_DIOXIDE = ''is_sulphur_dioxide''"
definition CONF_IS_TEMPERATURE :: string where "CONF_IS_TEMPERATURE = ''is_temperature''"
definition CONF_IS_VOLATILE_ORGANIC_COMPOUNDS :: string where
  "CONF_IS_VOLATILE_ORGANIC_COMPOUNDS = ''is_volatile_organic_compounds''"
definition CONF_IS_VOLTAGE :: string where "CONF_IS_VOLTAGE = ''is_voltage''"
definition CONF_IS_VALUE :: string where "CONF_IS_VALUE = ''is_value''"

text \<open>A condition template and a condition descriptor are dictionaries of strings.\<close>

type_synonym template = "string \<rightharpoonup> string"

definition ENTITY_CONDITIONS_items :: "(string \<times> template list) list" where
  "ENTITY_CONDITIONS_items =
    [(SensorDeviceClass APPARENT_POWER, [[CONF_TYPE \<mapsto> CONF_IS_APPARENT_POWER]]),
     (SensorDeviceClass BATTERY, [[CONF_TYPE \<mapsto> CONF_IS_BATTERY_LEVEL]]),
     (SensorDeviceClass CO, [[CONF_TYPE \<mapsto> CONF_IS_CO]]),
     (SensorDeviceClass CO2, [[CONF_TYPE \<mapsto> CONF_IS_CO2]]),
     (SensorDeviceClass CURRENT, [[CONF_TYPE \<mapsto> CONF_IS_CURRENT]]),
     (SensorDeviceClass ENERGY, [[CONF_TYPE \<mapsto> CONF_IS_ENERGY]]),
     (SensorDeviceClass FREQUENCY, [[CONF_TYPE \<mapsto> CONF_IS_FREQUENCY]]),
     (SensorDeviceClass GAS, [[CONF_TYPE \<mapsto> CONF_IS_GAS]]),
     (SensorDeviceClass HUMIDITY, [[CONF_TYPE \<mapsto> CONF_IS_HUMIDITY]]),
     (SensorDeviceClass ILLUMINANCE, [[CONF_TYPE \<mapsto> CONF_IS_ILLUMINANCE]]),
     (SensorDeviceClass NITROGEN_DIOXIDE, [[CONF_TYPE \<mapsto> CONF_IS_NITROGEN_DIOXIDE]]),
     (SensorDeviceClass NITROGEN_MONOXIDE, [[CONF_TYPE \<mapsto> CONF_IS_NITROGEN_MONOXIDE]]),
     (SensorDeviceClass NITROUS_OXIDE, [[CONF_TYPE \<mapsto> CONF_IS_NITROUS_OXIDE]]),
     (SensorDeviceClass OZONE, [[CONF_TYPE \<mapsto> CONF_IS_OZONE]]),
     (SensorDeviceClass POWER, [[CONF_TYPE \<mapsto> CONF_IS_POWER]]),
     (SensorDeviceClass POWER_FACTOR, [[CONF_TYPE \<mapsto> CONF_IS_POWER_FACTOR]]),
     (SensorDeviceClass PM1, [[CONF_TYPE \<mapsto> CONF_IS_PM1]]),
     (SensorDeviceClass PM10, [[CONF_TYPE \<mapsto> CONF_IS_PM10]]),
     (SensorDeviceClass PM25, [[CONF_TYPE \<mapsto> CONF_IS_PM25]]),
     (SensorDeviceClass PRESSURE, [[CONF_TYPE \<mapsto> CONF_IS_PRESSURE]]),
     (SensorDeviceClass REACTIVE_POWER, [[CONF_TYPE \<mapsto> CONF_IS_REACTIVE_POWER]]),
     (SensorDeviceClass SIGNAL_STRENGTH, [[CONF_TYPE \<mapsto> CONF_IS_SIGNAL_STRENGTH]]),
     (SensorDeviceClass SULPHUR_DIOXIDE, [[CONF_TYPE \<mapsto> CONF_IS_SULPHUR_DIOXIDE]]),
     (SensorDeviceClass TEMPERATURE, [[CONF_TYPE \<mapsto> CONF_IS_TEMPERATURE]]),
     (SensorDeviceClass VOLATILE_ORGANIC_COMPOUNDS,
        [[CONF_TYPE \<mapsto> CONF_IS_VOLATILE_ORGANIC_COMPOUNDS]]),
     (SensorDeviceClass VOLTAGE, [[CONF_TYPE \<mapsto> CONF_IS_VOLTAGE]]),
     (DEVICE_CLASS_NONE, [[CONF_TYPE \<mapsto> CONF_IS_VALUE]])]"

definition ENTITY_CONDITIONS :: "string \<rightharpoonup> template list" where
  "ENTITY_CONDITIONS = dict_of ENTITY_CONDITIONS_items"

subsection \<open>Schemas\<close>

text \<open>
  The schema objects of the validation library, as data: a key marker (required or
  optional, an optional one with its description), and the validator of a value.
\<close>

datatype py_type = float

datatype validator =
    Coerce py_type
  | In "string list"
  | Any "validator list"
  | cv_entity_id

datatype marker =
    Required string
  | Optional string "(string \<rightharpoonup> string) option"

type_synonym schema_dict = "(marker \<times> validator) list"

text \<open>\<^verbatim>\<open>vol.All(v1, v2, ...)\<close>: the validators run in order, each on the output of the one
  before; the first failure is the failure of the whole.\<close>

fun vol_All :: "('a \<Rightarrow> exn + 'a) list \<Rightarrow> 'a \<Rightarrow> exn + 'a" where
  "vol_All [] x = Inr x"
| "vol_All (v # vs) x = (case v x of Inl e \<Rightarrow> Inl e | Inr y \<Rightarrow> vol_All vs y)"

text \<open>
  Modelled from the spec: \<^verbatim>\<open>cv.has_at_least_one_key\<close>, a validator of the host's
  \<^verbatim>\<open>config_validation\<close> helpers (not part of the excerpt): at least one of the given
  keys must be present in the dictionary, which it then returns unchanged; otherwise
  the dictionary is rejected.
\<close>

definition has_at_least_one_key :: "string list \<Rightarrow> (string \<rightharpoonup> 'v) \<Rightarrow> exn + (string \<rightharpoonup> 'v)" where
  "has_at_least_one_key keys obj =
     (if list_ex (\<lambda>k. obj k \<noteq> None) keys then Inr obj
      else Inl (Invalid ''must contain at least one of the keys''))"

text \<open>
  \<^verbatim>\<open>CONDITION_SCHEMA\<close>. Its first argument stands for \<^verbatim>\<open>cv.DEVICE_CONDITION_BASE_SCHEMA.extend\<close>,
  the host's base schema of a device condition extended by a dictionary of keys, which
  is not part of the excerpt; the dictionary it is applied to is.
\<close>

definition CONDITION_SCHEMA_keys :: schema_dict where
  "CONDITION_SCHEMA_keys =
    [(Required CONF_ENTITY_ID, cv_entity_id),
     (Required CONF_TYPE,
        In [CONF_IS_APPARENT_POWER, CONF_IS_BATTERY_LEVEL, CONF_IS_CO, CONF_IS_CO2,
            CONF_IS_CURRENT, CONF_IS_ENERGY, CONF_IS_FREQUENCY, CONF_IS_GAS,
            CONF_IS_HUMIDITY, CONF_IS_ILLUMINANCE, CONF_IS_OZONE, CONF_IS_NITROGEN_DIOXIDE,
            CONF_IS_NITROGEN_MONOXIDE, CONF_IS_NITROUS_OXIDE, CONF_IS_POWER,
            CONF_IS_POWER_FACTOR, CONF_IS_PM1, CONF_IS_PM10, CONF_IS_PM25, CONF_IS_PRESSURE,
            CONF_IS_REACTIVE_POWER, CONF_IS_SIGNAL_STRENGTH, CONF_IS_SULPHUR_DIOXIDE,
            CONF_IS_TEMPERATURE, CONF_IS_VOLATILE_ORGANIC_COMPOUNDS, CONF_IS_VOLTAGE,
            CONF_IS_VALUE]),
     (Optional CONF_BELOW None, Any [Coerce float]),
     (Optional CONF_ABOVE None, Any [Coerce float])]"

definition CONDITION_SCHEMA ::
  "(schema_dict \<Rightarrow> 'f ConfigType \<Rightarrow> exn + 'f ConfigType) \<Rightarrow> 'f ConfigType \<Rightarrow> exn + 'f ConfigType" where
  "CONDITION_SCHEMA DEVICE_CONDITION_BASE_SCHEMA_extend =
     vol_All [DEVICE_CONDITION_BASE_SCHEMA_extend CONDITION_SCHEMA_keys,
              has_at_least_one_key [CONF_BELOW, CONF_ABOVE]]"

subsection \<open>Listing the conditions of a device\<close>

text \<open>The descriptor built from a template:
  \<^verbatim>\<open>{**template, "condition": "device", "device_id": ..., "entity_id": ..., "domain": DOMAIN}\<close>.\<close>

definition descriptor :: "string \<Rightarrow> RegistryEntry \<Rightarrow> template \<Rightarrow> template" where
  "descriptor device_id entry template =
     template(''condition'' \<mapsto> ''device'',
              ''device_id'' \<mapsto> device_id,
              ''entity_id'' \<mapsto> entity_id entry,
              ''domain'' \<mapsto> DOMAIN)"

text \<open>
  The loop over the entries, with the list \<^verbatim>\<open>conditions\<close> built so far. An exception
  of the unit lookup is not caught here and ends the call.
\<close>

fun conditions_loop ::
  "'f HomeAssistant \<Rightarrow> string \<Rightarrow> RegistryEntry list \<Rightarrow> template list \<Rightarrow> exn + template list" where
  "conditions_loop hass device_id [] conditions = Inr conditions"
| "conditions_loop hass device_id (entry # entries) conditions =
     (let device_class = py_or (get_device_class hass (Str (entity_id entry))) DEVICE_CLASS_NONE
      in case get_unit_of_measurement hass (Str (entity_id entry)) of
           Inl e \<Rightarrow> Inl e
         | Inr unit_of_measurement \<Rightarrow>
             if \<not> truthy unit_of_measurement
             then conditions_loop hass device_id entries conditions
             else (case ENTITY_CONDITIONS DEVICE_CLASS_NONE of
                     None \<Rightarrow> Inl (KeyError DEVICE_CLASS_NONE)
                   | Some fallback \<Rightarrow>
                       (let templates = (case ENTITY_CONDITIONS device_class of
                                           Some ts \<Rightarrow> ts
                                         | None \<Rightarrow> fallback)
                        in conditions_loop hass device_id entries
                             (conditions @ map (descriptor device_id entry) templates))))"

definition async_get_conditions :: "'f HomeAssistant \<Rightarrow> string \<Rightarrow> exn + template list" where
  "async_get_conditions hass device_id =
     (let entries = filter (\<lambda>entry. domain entry = DOMAIN)
                      (async_entries_for_device hass device_id)
      in conditions_loop hass device_id entries [])"

subsection \<open>Compiling a condition\<close>

text \<open>The dictionary \<^verbatim>\<open>numeric_state_config\<close> that the function builds before it hands
  it to the host; a missing entity id is a \<^verbatim>\<open>KeyError\<close>.\<close>

definition numeric_state_config :: "'f ConfigType \<Rightarrow> exn + 'f ConfigType" where
  "numeric_state_config config =
     (case config CONF_ENTITY_ID of
        None \<Rightarrow> Inl (KeyError CONF_ENTITY_ID)
      | Some entity \<Rightarrow>
          (let c0 = [CONF_CONDITION \<mapsto> Str ''numeric_state'', CONF_ENTITY_ID \<mapsto> entity];
               c1 = (case config CONF_ABOVE of Some bound \<Rightarrow> c0(CONF_ABOVE \<mapsto> bound) | None \<Rightarrow> c0);
               c2 = (case config CONF_BELOW of Some bound \<Rightarrow> c1(CONF_BELOW \<mapsto> bound) | None \<Rightarrow> c1)
           in Inr c2))"

definition async_condition_from_config ::
  "('f, 'c) numeric_state \<Rightarrow> 'f HomeAssistant \<Rightarrow> 'f ConfigType \<Rightarrow> exn + 'c" where
  "async_condition_from_config condition hass config =
     (case numeric_state_config config of
        Inl e \<Rightarrow> Inl e
      | Inr c \<Rightarrow>
          (case NUMERIC_STATE_CONDITION_SCHEMA condition c of
             Inl e \<Rightarrow> Inl e
           | Inr c' \<Rightarrow>
               (case numeric_state_validate_config condition hass c' of
                  Inl e \<Rightarrow> Inl e
                | Inr c'' \<Rightarrow> async_numeric_state_from_config condition c'')))"

subsection \<open>The capabilities of a condition\<close>

text \<open>The message of the error is a plain string literal in the source (it has no
  \<^verbatim>\<open>f\<close> prefix), so the braces are part of the message.\<close>

definition no_unit_message :: string where
  "no_unit_message =
     ''No unit of measurement found for condition entity {config[CONF_ENTITY_ID]}''"

definition async_get_condition_capabilities ::
  "'f HomeAssistant \<Rightarrow> 'f ConfigType \<Rightarrow> exn + (string \<rightharpoonup> schema_dict)" where
  "async_get_condition_capabilities hass config =
     (case config CONF_ENTITY_ID of
        None \<Rightarrow> Inl (KeyError CONF_ENTITY_ID)
      | Some entity \<Rightarrow>
          (case (case get_unit_of_measurement hass entity of
                   Inl (HomeAssistantError msg) \<Rightarrow> Inr None
                 | Inl e \<Rightarrow> Inl e
                 | Inr u \<Rightarrow> Inr u) of
             Inl e \<Rightarrow> Inl e
           | Inr unit_of_measurement \<Rightarrow>
               if \<not> truthy unit_of_measurement
               then Inl (InvalidDeviceAutomationConfig no_unit_message)
               else Inr [''extra_fields'' \<mapsto>
                      [(Optional CONF_ABOVE (Some [''suffix'' \<mapsto> the unit_of_measurement]),
                          Coerce float),
                       (Optional CONF_BELOW (Some [''suffix'' \<mapsto> the unit_of_measurement]),
                          Coerce float)]]))"

subsection \<open>An example host\<close>

text \<open>
  A host to run the functions on. Its device \<^verbatim>\<open>porch\<close> has three sensors and a light: a
  thermometer in degrees Celsius (the unit is the UTF-8 encoding of the degree sign and
  \<^verbatim>\<open>C\<close>), an uptime counter of a device class that has no templates of its own, and a
  status sensor without a unit. The device \<^verbatim>\<open>hall\<close> has the thermometer and the status
  sensor, \<^verbatim>\<open>cellar\<close> the status sensor only, and \<^verbatim>\<open>shed\<close> the thermometer and a
  sensor whose unit is the empty string. The unit lookup raises for an entity the host
  does not know; the devices \<^verbatim>\<open>yard\<close> (with the thermometer first) and \<^verbatim>\<open>pit\<close> (alone)
  have such a sensor.
\<close>

definition example_condition :: "(real, string) numeric_state" where
  "example_condition =
     \<lparr>NUMERIC_STATE_CONDITION_SCHEMA = Inr,
      numeric_state_validate_config = (\<lambda>hass. Inr),
      async_numeric_state_from_config = (\<lambda>c. Inr ''checker'')\<rparr>"

definition deg_C :: string where
  "deg_C = [CHR 0xC2, CHR 0xB0, CHR ''C'']"

definition example_entries :: "RegistryEntry list" where
  "example_entries =
     [\<lparr>domain = ''sensor'', entity_id = ''sensor.outside''\<rparr>,
      \<lparr>domain = ''sensor'', entity_id = ''sensor.uptime''\<rparr>,
      \<lparr>domain = ''sensor'', entity_id = ''sensor.status''\<rparr>,
      \<lparr>domain = ''light'', entity_id = ''light.porch''\<rparr>]"

definition example_hass :: "real HomeAssistant" where
  "example_hass =
     \<lparr>async_entries_for_device =
        (\<lambda>d. if d = ''porch'' then example_entries
             else if d = ''hall'' then [\<lparr>domain = ''sensor'', entity_id = ''sensor.outside''\<rparr>,
                                        \<lparr>domain = ''sensor'', entity_id = ''sensor.status''\<rparr>]
             else if d = ''cellar'' then [\<lparr>domain = ''sensor'', entity_id = ''sensor.status''\<rparr>]
             else if d = ''shed'' then [\<lparr>domain = ''sensor'', entity_id = ''sensor.blank''\<rparr>,
                                        \<lparr>domain = ''sensor'', entity_id = ''sensor.outside''\<rparr>]
             else if d = ''yard'' then [\<lparr>domain = ''sensor'', entity_id = ''sensor.outside''\<rparr>,
                                        \<lparr>domain = ''sensor'', entity_id = ''sensor.missing''\<rparr>]
             else if d = ''pit'' then [\<lparr>domain = ''sensor'', entity_id = ''sensor.missing''\<rparr>]
             else []),
      get_device_class = (\<lambda>e. if e = Str ''sensor.outside'' then Some ''temperature''
                               else if e = Str ''sensor.uptime'' then Some ''timestamp''
                               else None),
      get_unit_of_measurement = (\<lambda>e. if e = Str ''sensor.outside'' then Inr (Some deg_C)
                               else if e = Str ''sensor.uptime'' then Inr (Some ''s'')
                               else if e = Str ''sensor.status'' then Inr None
                               else if e = Str ''sensor.blank'' then Inr (Some [])
                               else Inl (HomeAssistantError ''Unknown entity''))\<rparr>"

definition example_config :: "real ConfigType" where
  "example_config =
     [CONF_ENTITY_ID \<mapsto> Str ''sensor.outside'', CONF_TYPE \<mapsto> Str ''is_temperature'',
      CONF_ABOVE \<mapsto> Float 21.5]"

section \<open>Properties\<close>

subsection \<open>The table and the loop\<close>

lemma ENTITY_CONDITIONS_none:
  "ENTITY_CONDITIONS DEVICE_CLASS_NONE = Some [[CONF_TYPE \<mapsto> CONF_IS_VALUE]]"
  by (simp add: ENTITY_CONDITIONS_def ENTITY_CONDITIONS_items_def dict_of_def)

lemma ENTITY_CONDITIONS_temperature:
  "ENTITY_CONDITIONS ''temperature'' = Some [[CONF_TYPE \<mapsto> CONF_IS_TEMPERATURE]]"
  by (simp add: ENTITY_CONDITIONS_def ENTITY_CONDITIONS_items_def dict_of_def DEVICE_CLASS_NONE_def)

lemma ENTITY_CONDITIONS_empty: "ENTITY_CONDITIONS [] = None"
  by (simp add: ENTITY_CONDITIONS_def ENTITY_CONDITIONS_items_def dict_of_def DEVICE_CLASS_NONE_def)

lemma py_or_None [simp]: "py_or None b = b"
  by (simp add: py_or_def)

lemma py_or_Some: "py_or (Some s) b = (if s = [] then b else s)"
  by (simp add: py_or_def)

text \<open>The templates the loop selects for a looked-up device class: an empty string
  is no key of the table, so it needs no case of its own.\<close>

lemma templates_of_class:
  "(case ENTITY_CONDITIONS (py_or dc DEVICE_CLASS_NONE) of
      Some ts \<Rightarrow> ts | None \<Rightarrow> [[CONF_TYPE \<mapsto> CONF_IS_VALUE]]) =
   (case dc of
      None \<Rightarrow> [[CONF_TYPE \<mapsto> CONF_IS_VALUE]]
    | Some c \<Rightarrow> (case ENTITY_CONDITIONS c of
                  Some ts \<Rightarrow> ts | None \<Rightarrow> [[CONF_TYPE \<mapsto> CONF_IS_VALUE]]))"
  by (cases dc) (simp_all add: py_or_Some ENTITY_CONDITIONS_none ENTITY_CONDITIONS_empty)

lemma loop_step:
  assumes "get_unit_of_measurement hass (Str (entity_id entry)) = Inr u"
  shows "conditions_loop hass device_id (entry # entries) acc =
         conditions_loop hass device_id entries
           (acc @ (if truthy u
                   then map (descriptor device_id entry)
                          (case get_device_class hass (Str (entity_id entry)) of
                             None \<Rightarrow> [[CONF_TYPE \<mapsto> CONF_IS_VALUE]]
                           | Some c \<Rightarrow> (case ENTITY_CONDITIONS c of
                                Some ts \<Rightarrow> ts | None \<Rightarrow> [[CONF_TYPE \<mapsto> CONF_IS_VALUE]]))
                   else []))"
  using assms templates_of_class [of "get_device_class hass (Str (entity_id entry))"]
  by (simp add: ENTITY_CONDITIONS_none Let_def)

lemma loop_raise:
  assumes "get_unit_of_measurement hass (Str (entity_id entry)) = Inl e"
  shows "conditions_loop hass device_id (entry # entries) acc = Inl e"
  using assms by (simp add: Let_def)

lemma loop_append:
  "conditions_loop hass device_id (xs @ ys) acc =
     (case conditions_loop hass device_id xs acc of
        Inl e \<Rightarrow> Inl e
      | Inr acc' \<Rightarrow> conditions_loop hass device_id ys acc')"
proof (induction xs arbitrary: acc)
  case Nil
  show ?case by simp
next
  case (Cons x xs)
  show ?case
  proof (cases "get_unit_of_measurement hass (Str (entity_id x))")
    case (Inl e)
    then show ?thesis by (simp add: loop_raise)
  next
    case (Inr u)
    show ?thesis
      unfolding append_Cons loop_step [OF Inr] by (rule Cons.IH)
  qed
qed


lemma loop_entries_field [simp]:
  "conditions_loop (hass\<lparr>async_entries_for_device := f\<rparr>) device_id entries acc =
   conditions_loop hass device_id entries acc"
  by (induction entries arbitrary: acc) (simp_all add: Let_def split: sum.splits option.splits)

lemma loop_skip:
  assumes "get_unit_of_measurement hass (Str (entity_id entry)) = Inr u" and "\<not> truthy u"
  shows "conditions_loop hass device_id (xs @ entry # ys) acc =
         conditions_loop hass device_id (xs @ ys) acc"
  using assms by (simp add: loop_append [of _ _ xs] loop_step split: sum.splits)

lemma loop_entity_ids:
  assumes "conditions_loop hass device_id entries acc = Inr ds" and "c \<in> set ds"
  shows "c \<in> set acc \<or>
         (\<exists>entry \<in> set entries.
            (\<exists>u. get_unit_of_measurement hass (Str (entity_id entry)) = Inr u \<and> truthy u) \<and>
            c ''entity_id'' = Some (entity_id entry))"
  using assms
proof (induction entries arbitrary: acc)
  case Nil
  then show ?case by simp
next
  case (Cons x xs)
  show ?case
  proof (cases "get_unit_of_measurement hass (Str (entity_id x))")
    case (Inl e)
    with Cons.prems show ?thesis by (simp add: loop_raise)
  next
    case (Inr u)
    from Cons.prems(1) have run: "conditions_loop hass device_id xs
        (acc @ (if truthy u
                   then map (descriptor device_id x)
                          (case get_device_class hass (Str (entity_id x)) of
                             None \<Rightarrow> [[CONF_TYPE \<mapsto> CONF_IS_VALUE]]
                           | Some c \<Rightarrow> (case ENTITY_CONDITIONS c of
                                Some ts \<Rightarrow> ts | None \<Rightarrow> [[CONF_TYPE \<mapsto> CONF_IS_VALUE]]))
                   else [])) = Inr ds"
      by (simp only: loop_step [OF Inr])
    from Cons.IH [OF run Cons.prems(2)] Inr show ?thesis
      by (auto simp: descriptor_def split: if_splits)
  qed
qed


lemma loop_cong:
  assumes "\<forall>entry \<in> set entries.
             get_device_class h1 (Str (entity_id entry)) = get_device_class h2 (Str (entity_id entry)) \<and>
             (get_unit_of_measurement h1 (Str (entity_id entry)) =
                get_unit_of_measurement h2 (Str (entity_id entry)) \<or>
              (\<exists>u1 u2. get_unit_of_measurement h1 (Str (entity_id entry)) = Inr u1 \<and>
                       get_unit_of_measurement h2 (Str (entity_id entry)) = Inr u2 \<and>
                       \<not> truthy u1 \<and> \<not> truthy u2))"
  shows "conditions_loop h1 device_id entries acc = conditions_loop h2 device_id entries acc"
  using assms
proof (induction entries arbitrary: acc)
  case Nil
  show ?case by simp
next
  case (Cons x xs)
  have dc: "get_device_class h1 (Str (entity_id x)) = get_device_class h2 (Str (entity_id x))"
    using Cons.prems by simp
  have rest: "conditions_loop h1 device_id xs acc' = conditions_loop h2 device_id xs acc'" for acc'
    using Cons.prems by (intro Cons.IH) simp
  from Cons.prems consider
      (same) "get_unit_of_measurement h1 (Str (entity_id x)) =
                get_unit_of_measurement h2 (Str (entity_id x))"
    | (falsy) u1 u2 where "get_unit_of_measurement h1 (Str (entity_id x)) = Inr u1"
        "get_unit_of_measurement h2 (Str (entity_id x)) = Inr u2" "\<not> truthy u1" "\<not> truthy u2"
    by auto
  then show ?case
  proof cases
    case same
    show ?thesis
    proof (cases "get_unit_of_measurement h2 (Str (entity_id x))")
      case (Inl e)
      with same show ?thesis by (simp add: loop_raise)
    next
      case (Inr u)
      with same have u1: "get_unit_of_measurement h1 (Str (entity_id x)) = Inr u" by simp
      show ?thesis
        by (simp only: loop_step [OF u1] loop_step [OF Inr] dc rest)
    qed
  next
    case falsy
    then show ?thesis
      by (simp add: rest)
  qed
qed

lemma get_conditions_entries:
  "async_get_conditions (hass\<lparr>async_entries_for_device := f\<rparr>) device_id =
   conditions_loop hass device_id (filter (\<lambda>entry. domain entry = DOMAIN) (f device_id)) []"
  by (simp add: async_get_conditions_def)

lemma get_conditions_loop:
  "async_get_conditions hass device_id =
   conditions_loop hass device_id
     (filter (\<lambda>entry. domain entry = DOMAIN) (async_entries_for_device hass device_id)) []"
  by (simp add: async_get_conditions_def)

subsection \<open>The example host\<close>

lemma example_config_simps:
  "example_config CONF_ENTITY_ID = Some (Str ''sensor.outside'')"
  "example_config CONF_ABOVE = Some (Float 21.5)"
  "example_config CONF_BELOW = None"
  by (simp_all add: example_config_def CONF_ENTITY_ID_def CONF_TYPE_def CONF_ABOVE_def CONF_BELOW_def)


subsection \<open>The compiled numeric-state configuration\<close>

text \<open>
  Claim C3. For every condition configuration that has an entity id, with any subset of
  the above and below bounds, \<^verbatim>\<open>async_condition_from_config\<close> builds a numeric-state
  configuration that holds the condition kind \<^verbatim>\<open>numeric_state\<close>, the same entity id and
  exactly the bounds that the input holds, each with its value unchanged: its keys are
  the two fixed keys and the bound keys of the input, no other. This dictionary is what
  the host's schema, normaliser and factory are then applied to.
\<close>

theorem numeric_state_config_exact:
  assumes "config CONF_ENTITY_ID = Some entity"
  shows "\<exists>c. numeric_state_config config = Inr c \<and>
             c CONF_CONDITION = Some (Str ''numeric_state'') \<and>
             c CONF_ENTITY_ID = Some entity \<and>
             c CONF_ABOVE = config CONF_ABOVE \<and>
             c CONF_BELOW = config CONF_BELOW \<and>
             dom c = {CONF_CONDITION, CONF_ENTITY_ID} \<union> (dom config \<inter> {CONF_ABOVE, CONF_BELOW}) \<and>
             async_condition_from_config condition hass config =
               (case NUMERIC_STATE_CONDITION_SCHEMA condition c of
                  Inl e \<Rightarrow> Inl e
                | Inr c' \<Rightarrow>
                    (case numeric_state_validate_config condition hass c' of
                       Inl e \<Rightarrow> Inl e
                     | Inr c'' \<Rightarrow> async_numeric_state_from_config condition c''))"
proof -
  have keys: "CONF_ABOVE \<noteq> CONF_BELOW" "CONF_ABOVE \<noteq> CONF_ENTITY_ID" "CONF_ABOVE \<noteq> CONF_CONDITION"
    "CONF_BELOW \<noteq> CONF_ENTITY_ID" "CONF_BELOW \<noteq> CONF_CONDITION" "CONF_ENTITY_ID \<noteq> CONF_CONDITION"
    by (simp_all add: CONF_ABOVE_def CONF_BELOW_def CONF_ENTITY_ID_def CONF_CONDITION_def)
  define c where "c =
      (let c0 = [CONF_CONDITION \<mapsto> Str ''numeric_state'', CONF_ENTITY_ID \<mapsto> entity];
           c1 = (case config CONF_ABOVE of Some bound \<Rightarrow> c0(CONF_ABOVE \<mapsto> bound) | None \<Rightarrow> c0)
       in (case config CONF_BELOW of Some bound \<Rightarrow> c1(CONF_BELOW \<mapsto> bound) | None \<Rightarrow> c1))"
  have c: "numeric_state_config config = Inr c"
    using assms by (simp add: numeric_state_config_def c_def Let_def)
  note c_eq = c_def
  have 1: "c CONF_CONDITION = Some (Str ''numeric_state'')"
    using keys by (simp add: c_eq Let_def split: option.splits)
  have 2: "c CONF_ENTITY_ID = Some entity"
    using keys by (simp add: c_eq Let_def split: option.splits)
  have 3: "c CONF_ABOVE = config CONF_ABOVE"
    using keys by (simp add: c_eq Let_def split: option.splits)
  have 4: "c CONF_BELOW = config CONF_BELOW"
    using keys by (simp add: c_eq Let_def split: option.splits)
  have 5: "dom c = {CONF_CONDITION, CONF_ENTITY_ID} \<union> (dom config \<inter> {CONF_ABOVE, CONF_BELOW})"
    by (cases "config CONF_ABOVE"; cases "config CONF_BELOW") (auto simp: c_eq Let_def)
  have 6: "async_condition_from_config condition hass config =
               (case NUMERIC_STATE_CONDITION_SCHEMA condition c of
                  Inl e \<Rightarrow> Inl e
                | Inr c' \<Rightarrow>
                    (case numeric_state_validate_config condition hass c' of
                       Inl e \<Rightarrow> Inl e
                     | Inr c'' \<Rightarrow> async_numeric_state_from_config condition c''))"
    by (simp add: async_condition_from_config_def c)
  from c 1 2 3 4 5 6 show ?thesis by blast
qed

text \<open>The theorem at the example configuration, which has the above bound only.\<close>

theorem numeric_state_config_exact_witness:
  "\<exists>c. numeric_state_config example_config = Inr c \<and>
       c CONF_CONDITION = Some (Str ''numeric_state'') \<and>
       c CONF_ENTITY_ID = Some (Str ''sensor.outside'') \<and>
       c CONF_ABOVE = Some (Float 21.5) \<and>
       c CONF_BELOW = None \<and>
       async_condition_from_config example_condition example_hass example_config = Inr ''checker''"
proof -
  from numeric_state_config_exact [of example_config "Str ''sensor.outside''" example_condition example_hass]
  obtain c where c: "numeric_state_config example_config = Inr c"
      "c CONF_CONDITION = Some (Str ''numeric_state'')"
      "c CONF_ENTITY_ID = Some (Str ''sensor.outside'')"
      "c CONF_ABOVE = example_config CONF_ABOVE"
      "c CONF_BELOW = example_config CONF_BELOW"
      "async_condition_from_config example_condition example_hass example_config =
         (case NUMERIC_STATE_CONDITION_SCHEMA example_condition c of
            Inl e \<Rightarrow> Inl e
          | Inr c' \<Rightarrow>
              (case numeric_state_validate_config example_condition example_hass c' of
                 Inl e \<Rightarrow> Inl e
               | Inr c'' \<Rightarrow> async_numeric_state_from_config example_condition c''))"
    using example_config_simps(1) by blast
  have "async_condition_from_config example_condition example_hass example_config = Inr ''checker''"
    unfolding c(6) by (simp add: example_condition_def)
  with c(1-5) show ?thesis
    by (simp add: example_config_simps)
qed

subsection \<open>The capabilities of a condition\<close>

text \<open>
  Claim C6. For every condition configuration whose entity's unit lookup yields a
  non-empty unit, \<^verbatim>\<open>async_get_condition_capabilities\<close> returns a dictionary with the one
  key \<^verbatim>\<open>extra_fields\<close>, whose schema has exactly two fields, above and below, both
  optional, both coerced to float, each described by the unit as its suffix.
\<close>

theorem capabilities_suffix:
  assumes "config CONF_ENTITY_ID = Some entity"
    and "get_unit_of_measurement hass entity = Inr (Some unit)"
    and "unit \<noteq> []"
  shows "async_get_condition_capabilities hass config =
           Inr [''extra_fields'' \<mapsto>
                  [(Optional ''above'' (Some [''suffix'' \<mapsto> unit]), Coerce float),
                   (Optional ''below'' (Some [''suffix'' \<mapsto> unit]), Coerce float)]]"
  using assms
  by (simp add: async_get_condition_capabilities_def CONF_ABOVE_def CONF_BELOW_def)

text \<open>The theorem at the example host's thermometer.\<close>

theorem capabilities_suffix_witness:
  "async_get_condition_capabilities example_hass example_config =
   Inr [''extra_fields'' \<mapsto>
          [(Optional ''above'' (Some [''suffix'' \<mapsto> [CHR 0xC2, CHR 0xB0, CHR ''C'']]), Coerce float),
           (Optional ''below'' (Some [''suffix'' \<mapsto> [CHR 0xC2, CHR 0xB0, CHR ''C'']]), Coerce float)]]"
proof -
  have b: "get_unit_of_measurement example_hass (Str ''sensor.outside'') = Inr (Some deg_C)"
    by (simp add: example_hass_def)
  have c: "deg_C \<noteq> []"
    by (simp add: deg_C_def)
  from capabilities_suffix [of example_config "Str ''sensor.outside''" example_hass deg_C,
      OF example_config_simps(1) b c]
  show ?thesis
    by (simp only: deg_C_def)
qed

text \<open>Without a unit, or when the lookup raises the host's error, the call raises
  \<^verbatim>\<open>InvalidDeviceAutomationConfig\<close>, always with the same message.\<close>

lemma capabilities_no_unit_raises:
  assumes "config CONF_ENTITY_ID = Some entity"
    and "(\<exists>msg. get_unit_of_measurement hass entity = Inl (HomeAssistantError msg)) \<or>
         (\<exists>u. get_unit_of_measurement hass entity = Inr u \<and> \<not> truthy u)"
  shows "async_get_condition_capabilities hass config =
           Inl (InvalidDeviceAutomationConfig no_unit_message)"
  using assms by (auto simp: async_get_condition_capabilities_def)

text \<open>
  Claim C1. When the unit lookup yields no unit or raises the host's error,
  \<^verbatim>\<open>async_get_condition_capabilities\<close> raises \<^verbatim>\<open>InvalidDeviceAutomationConfig\<close>, but the
  message does not name the entity: the source's string has a placeholder in braces and
  no \<^verbatim>\<open>f\<close> prefix, so the placeholder itself is the message. Two configurations with
  different entity ids (one without a unit, one unknown to the host) get the same
  message, and the message has no dot, which every entity id has.
\<close>

theorem capabilities_message_is_literal:
  "async_get_condition_capabilities example_hass [CONF_ENTITY_ID \<mapsto> Str ''sensor.status''] =
     Inl (InvalidDeviceAutomationConfig
            ''No unit of measurement found for condition entity {config[CONF_ENTITY_ID]}'') \<and>
   async_get_condition_capabilities example_hass [CONF_ENTITY_ID \<mapsto> Str ''sensor.missing''] =
     Inl (InvalidDeviceAutomationConfig
            ''No unit of measurement found for condition entity {config[CONF_ENTITY_ID]}'') \<and>
   CHR ''.'' \<notin> set ''No unit of measurement found for condition entity {config[CONF_ENTITY_ID]}''"
  by (simp add: async_get_condition_capabilities_def example_hass_def no_unit_message_def)

subsection \<open>The conditions of a device\<close>




text \<open>
  Claim C7. For a device with exactly two entries, the first a sensor of device class
  \<^verbatim>\<open>temperature\<close> whose unit is the degree sign followed by \<^verbatim>\<open>C\<close>, the second without
  device class and without unit, \<^verbatim>\<open>async_get_conditions\<close> returns exactly one descriptor,
  of type \<^verbatim>\<open>is_temperature\<close>, for the first entry.
\<close>

theorem temperature_entity_only:
  assumes "async_entries_for_device hass device_id = [first, second]"
    and "domain first = DOMAIN"
    and "get_device_class hass (Str (entity_id first)) = Some ''temperature''"
    and "get_unit_of_measurement hass (Str (entity_id first)) =
           Inr (Some [CHR 0xC2, CHR 0xB0, CHR ''C''])"
    and "get_device_class hass (Str (entity_id second)) = None"
    and "get_unit_of_measurement hass (Str (entity_id second)) = Inr None"
  shows "async_get_conditions hass device_id =
           Inr [[''type'' \<mapsto> ''is_temperature'', ''condition'' \<mapsto> ''device'',
                 ''device_id'' \<mapsto> device_id, ''entity_id'' \<mapsto> entity_id first,
                 ''domain'' \<mapsto> ''sensor'']]"
proof -
  have one: "conditions_loop hass device_id (first # rest) [] =
             conditions_loop hass device_id rest
               [[''type'' \<mapsto> ''is_temperature'', ''condition'' \<mapsto> ''device'',
                 ''device_id'' \<mapsto> device_id, ''entity_id'' \<mapsto> entity_id first,
                 ''domain'' \<mapsto> ''sensor'']]" for rest
    unfolding loop_step [OF assms(4)]
    by (simp add: assms(3) ENTITY_CONDITIONS_temperature descriptor_def DOMAIN_def
          CONF_TYPE_def CONF_IS_TEMPERATURE_def)
  have two: "conditions_loop hass device_id (second # rest) acc =
             conditions_loop hass device_id rest acc" for rest acc
    unfolding loop_step [OF assms(6)] by simp
  show ?thesis
    unfolding get_conditions_loop assms(1)
    by (cases "domain second = DOMAIN") (simp_all add: assms(2) one two del: conditions_loop.simps(2))
qed

text \<open>The theorem at the device \<^verbatim>\<open>hall\<close> of the example host.\<close>

theorem temperature_entity_only_witness:
  "async_get_conditions example_hass ''hall'' =
     Inr [[''type'' \<mapsto> ''is_temperature'', ''condition'' \<mapsto> ''device'',
           ''device_id'' \<mapsto> ''hall'', ''entity_id'' \<mapsto> ''sensor.outside'',
           ''domain'' \<mapsto> ''sensor'']]"
proof -
  let ?first = "\<lparr>domain = ''sensor'', entity_id = ''sensor.outside''\<rparr>"
  let ?second = "\<lparr>domain = ''sensor'', entity_id = ''sensor.status''\<rparr>"
  have 1: "async_entries_for_device example_hass ''hall'' = [?first, ?second]"
    by (simp add: example_hass_def)
  have 2: "domain ?first = DOMAIN"
    by (simp add: DOMAIN_def)
  have 3: "get_device_class example_hass (Str (entity_id ?first)) = Some ''temperature''"
    by (simp add: example_hass_def)
  have 4: "get_unit_of_measurement example_hass (Str (entity_id ?first)) =
             Inr (Some [CHR 0xC2, CHR 0xB0, CHR ''C''])"
    by (simp add: example_hass_def deg_C_def)
  have 5: "get_device_class example_hass (Str (entity_id ?second)) = None"
    by (simp add: example_hass_def)
  have 6: "get_unit_of_measurement example_hass (Str (entity_id ?second)) = Inr None"
    by (simp add: example_hass_def)
  from temperature_entity_only [OF 1 2 3 4 5 6] show ?thesis
    by simp
qed




text \<open>
  Claim C9. \<^verbatim>\<open>async_get_conditions\<close> considers the entries of the sensor domain only: an
  entry of another domain can be taken out of the registry's answer without any change
  of the result, whatever its device class and unit are (its lookups are never made),
  and every descriptor of the result names a sensor entry of the device.
\<close>

theorem other_domains_ignored:
  assumes "async_entries_for_device hass device_id = before @ entry # after"
    and "domain entry \<noteq> DOMAIN"
  shows "async_get_conditions hass device_id =
           async_get_conditions
             (hass\<lparr>async_entries_for_device :=
                (async_entries_for_device hass)(device_id := before @ after)\<rparr>) device_id \<and>
         (\<forall>conditions. async_get_conditions hass device_id = Inr conditions \<longrightarrow>
            (\<forall>c \<in> set conditions.
               \<exists>e \<in> set (async_entries_for_device hass device_id).
                 domain e = DOMAIN \<and> c ''entity_id'' = Some (entity_id e)))"
proof (intro conjI allI impI ballI)
  show "async_get_conditions hass device_id =
           async_get_conditions
             (hass\<lparr>async_entries_for_device :=
                (async_entries_for_device hass)(device_id := before @ after)\<rparr>) device_id"
    unfolding get_conditions_entries
    by (simp add: get_conditions_loop assms)
next
  fix conditions c
  assume run: "async_get_conditions hass device_id = Inr conditions" and c: "c \<in> set conditions"
  from run have "conditions_loop hass device_id
      (filter (\<lambda>entry. domain entry = DOMAIN) (async_entries_for_device hass device_id)) []
        = Inr conditions"
    by (simp only: get_conditions_loop)
  from loop_entity_ids [OF this c]
  show "\<exists>e \<in> set (async_entries_for_device hass device_id).
                 domain e = DOMAIN \<and> c ''entity_id'' = Some (entity_id e)"
    by (simp only: set_simps empty_iff simp_thms set_filter) blast
qed

text \<open>The theorem at the porch of the example host, whose last entry is a light.\<close>

theorem other_domains_ignored_witness:
  "async_get_conditions example_hass ''porch'' =
     async_get_conditions
       (example_hass\<lparr>async_entries_for_device :=
          (async_entries_for_device example_hass)
            (''porch'' := [\<lparr>domain = ''sensor'', entity_id = ''sensor.outside''\<rparr>,
                           \<lparr>domain = ''sensor'', entity_id = ''sensor.uptime''\<rparr>,
                           \<lparr>domain = ''sensor'', entity_id = ''sensor.status''\<rparr>] @ [])\<rparr>) ''porch''"
proof -
  have 1: "async_entries_for_device example_hass ''porch'' =
      [\<lparr>domain = ''sensor'', entity_id = ''sensor.outside''\<rparr>,
       \<lparr>domain = ''sensor'', entity_id = ''sensor.uptime''\<rparr>,
       \<lparr>domain = ''sensor'', entity_id = ''sensor.status''\<rparr>] @
      \<lparr>domain = ''light'', entity_id = ''light.porch''\<rparr> # []"
    by (simp add: example_hass_def example_entries_def)
  have 2: "domain \<lparr>domain = ''light'', entity_id = ''light.porch''\<rparr> \<noteq> DOMAIN"
    by (simp add: DOMAIN_def)
  from other_domains_ignored [OF 1 2] show ?thesis
    by blast
qed

text \<open>
  Claim C10. An empty string as unit of measurement is treated exactly like no unit:
  both \<^verbatim>\<open>async_get_conditions\<close> and \<^verbatim>\<open>async_get_condition_capabilities\<close> return the same
  on a host and on the host whose unit lookup answers \<^verbatim>\<open>None\<close> wherever the first answers
  the empty string. So the capabilities of a condition on such an entity are refused
  with \<^verbatim>\<open>InvalidDeviceAutomationConfig\<close>, and an entry with such a unit adds nothing to the
  conditions of its device.
\<close>

theorem empty_unit_as_absent:
  "async_get_conditions hass device_id =
     async_get_conditions
       (hass\<lparr>get_unit_of_measurement :=
          (\<lambda>e. if get_unit_of_measurement hass e = Inr (Some [])
               then Inr None else get_unit_of_measurement hass e)\<rparr>) device_id \<and>
   async_get_condition_capabilities hass config =
     async_get_condition_capabilities
       (hass\<lparr>get_unit_of_measurement :=
          (\<lambda>e. if get_unit_of_measurement hass e = Inr (Some [])
               then Inr None else get_unit_of_measurement hass e)\<rparr>) config \<and>
   (\<forall>entity. config CONF_ENTITY_ID = Some entity \<longrightarrow>
      get_unit_of_measurement hass entity = Inr (Some []) \<longrightarrow>
      async_get_condition_capabilities hass config =
        Inl (InvalidDeviceAutomationConfig no_unit_message)) \<and>
   (\<forall>before entry after.
      async_entries_for_device hass device_id = before @ entry # after \<longrightarrow>
      get_unit_of_measurement hass (Str (entity_id entry)) = Inr (Some []) \<longrightarrow>
      async_get_conditions hass device_id =
        async_get_conditions
          (hass\<lparr>async_entries_for_device :=
             (async_entries_for_device hass)(device_id := before @ after)\<rparr>) device_id)"
proof (intro conjI allI impI)
  let ?norm = "hass\<lparr>get_unit_of_measurement :=
          (\<lambda>e. if get_unit_of_measurement hass e = Inr (Some [])
               then Inr None else get_unit_of_measurement hass e)\<rparr>"
  have entries: "async_entries_for_device ?norm = async_entries_for_device hass"
    by simp
  have agree: "\<forall>entry \<in> set entries.
      get_device_class hass (Str (entity_id entry)) = get_device_class ?norm (Str (entity_id entry)) \<and>
      (get_unit_of_measurement hass (Str (entity_id entry)) =
         get_unit_of_measurement ?norm (Str (entity_id entry)) \<or>
       (\<exists>u1 u2. get_unit_of_measurement hass (Str (entity_id entry)) = Inr u1 \<and>
                get_unit_of_measurement ?norm (Str (entity_id entry)) = Inr u2 \<and>
                \<not> truthy u1 \<and> \<not> truthy u2))" for entries :: "RegistryEntry list"
    by simp
  show "async_get_conditions hass device_id = async_get_conditions ?norm device_id"
    unfolding get_conditions_loop entries by (rule loop_cong [OF agree])
  show "async_get_condition_capabilities hass config =
          async_get_condition_capabilities ?norm config"
    by (simp add: async_get_condition_capabilities_def split: option.splits)
next
  fix entity
  assume "config CONF_ENTITY_ID = Some entity"
    and "get_unit_of_measurement hass entity = Inr (Some [])"
  then show "async_get_condition_capabilities hass config =
        Inl (InvalidDeviceAutomationConfig no_unit_message)"
    by (simp add: async_get_condition_capabilities_def)
next
  fix before entry after
  assume split: "async_entries_for_device hass device_id = before @ entry # after"
    and blank: "get_unit_of_measurement hass (Str (entity_id entry)) = Inr (Some [])"
  have falsy: "\<not> truthy (Some [])"
    by simp
  show "async_get_conditions hass device_id =
        async_get_conditions
          (hass\<lparr>async_entries_for_device :=
             (async_entries_for_device hass)(device_id := before @ after)\<rparr>) device_id"
    unfolding get_conditions_entries get_conditions_loop split
    by (simp add: loop_skip [OF blank falsy] del: conditions_loop.simps)
qed

text \<open>The theorem at the example host's sensor with an empty unit and at its shed.\<close>

theorem empty_unit_as_absent_witness:
  "async_get_condition_capabilities example_hass [CONF_ENTITY_ID \<mapsto> Str ''sensor.blank''] =
     Inl (InvalidDeviceAutomationConfig no_unit_message) \<and>
   async_get_conditions example_hass ''shed'' =
     async_get_conditions
       (example_hass\<lparr>async_entries_for_device :=
          (async_entries_for_device example_hass)
            (''shed'' := [] @ [\<lparr>domain = ''sensor'', entity_id = ''sensor.outside''\<rparr>])\<rparr>) ''shed''"
proof -
  let ?config = "[CONF_ENTITY_ID \<mapsto> Str ''sensor.blank''] :: real ConfigType"
  have 1: "?config CONF_ENTITY_ID = Some (Str ''sensor.blank'')"
    by simp
  have 2: "get_unit_of_measurement example_hass (Str ''sensor.blank'') = Inr (Some [])"
    by (simp add: example_hass_def)
  have 3: "async_entries_for_device example_hass ''shed'' =
             [] @ \<lparr>domain = ''sensor'', entity_id = ''sensor.blank''\<rparr> #
               [\<lparr>domain = ''sensor'', entity_id = ''sensor.outside''\<rparr>]"
    by (simp add: example_hass_def)
  have 4: "get_unit_of_measurement example_hass
             (Str (entity_id \<lparr>domain = ''sensor'', entity_id = ''sensor.blank''\<rparr>)) = Inr (Some [])"
    by (simp add: example_hass_def)
  from empty_unit_as_absent [of example_hass "''shed''" ?config] 1 2 3 4
  show ?thesis
    by blast
qed

subsection \<open>The schema of a condition\<close>

text \<open>
  Claim C4. Every configuration that \<^verbatim>\<open>CONDITION_SCHEMA\<close> accepts holds at least one of
  the two bounds when it leaves the schema, whatever the extended base schema does; and
  where the extended base schema adds no bound of its own, a configuration with neither
  bound is rejected. The second validator, \<^verbatim>\<open>cv.has_at_least_one_key\<close>, is the one
  modelled from the specification.
\<close>

theorem schema_requires_a_bound:
  "(\<forall>validated. CONDITION_SCHEMA base_extend config = Inr validated \<longrightarrow>
      validated CONF_ABOVE \<noteq> None \<or> validated CONF_BELOW \<noteq> None) \<and>
   ((\<forall>c c'. base_extend CONDITION_SCHEMA_keys c = Inr c' \<longrightarrow>
        c CONF_ABOVE = None \<longrightarrow> c CONF_BELOW = None \<longrightarrow>
        c' CONF_ABOVE = None \<and> c' CONF_BELOW = None) \<longrightarrow>
    config CONF_ABOVE = None \<longrightarrow> config CONF_BELOW = None \<longrightarrow>
    (\<exists>e. CONDITION_SCHEMA base_extend config = Inl e))"
proof (intro conjI allI impI)
  fix validated
  assume "CONDITION_SCHEMA base_extend config = Inr validated"
  then show "validated CONF_ABOVE \<noteq> None \<or> validated CONF_BELOW \<noteq> None"
    by (auto simp: CONDITION_SCHEMA_def has_at_least_one_key_def split: sum.splits if_splits)
next
  assume keeps: "\<forall>c c'. base_extend CONDITION_SCHEMA_keys c = Inr c' \<longrightarrow>
        c CONF_ABOVE = None \<longrightarrow> c CONF_BELOW = None \<longrightarrow>
        c' CONF_ABOVE = None \<and> c' CONF_BELOW = None"
    and none: "config CONF_ABOVE = None" "config CONF_BELOW = None"
  show "\<exists>e. CONDITION_SCHEMA base_extend config = Inl e"
  proof (cases "base_extend CONDITION_SCHEMA_keys config")
    case (Inl e)
    then show ?thesis by (simp add: CONDITION_SCHEMA_def)
  next
    case (Inr c')
    with keeps none have "c' CONF_ABOVE = None \<and> c' CONF_BELOW = None" by blast
    with Inr show ?thesis
      by (simp add: CONDITION_SCHEMA_def has_at_least_one_key_def)
  qed
qed

text \<open>The theorem for a base schema that accepts every dictionary as it is: the example
  configuration, with an upper bound, is accepted, and the same without bound is not.\<close>

theorem schema_requires_a_bound_witness:
  "CONDITION_SCHEMA (\<lambda>keys. Inr) example_config = Inr example_config \<and>
   example_config CONF_ABOVE = Some (Float 21.5) \<and>
   (\<exists>e. CONDITION_SCHEMA (\<lambda>keys. Inr)
          ([CONF_ENTITY_ID \<mapsto> Str ''sensor.outside'', CONF_TYPE \<mapsto> Str ''is_temperature'']
             :: real ConfigType) = Inl e)"
proof -
  let ?unbounded = "[CONF_ENTITY_ID \<mapsto> Str ''sensor.outside'', CONF_TYPE \<mapsto> Str ''is_temperature'']
             :: real ConfigType"
  have 1: "CONDITION_SCHEMA (\<lambda>keys. Inr) example_config = Inr example_config"
    by (simp add: CONDITION_SCHEMA_def has_at_least_one_key_def example_config_simps)
  have 2: "\<forall>c c'. (\<lambda>keys. Inr) CONDITION_SCHEMA_keys c = Inr c' \<longrightarrow>
        c CONF_ABOVE = None \<longrightarrow> c CONF_BELOW = None \<longrightarrow>
        c' CONF_ABOVE = None \<and> c' CONF_BELOW = (None :: real pyval option)"
    by simp
  have 3: "?unbounded CONF_ABOVE = None" "?unbounded CONF_BELOW = None"
    by (simp_all add: CONF_ABOVE_def CONF_BELOW_def CONF_ENTITY_ID_def CONF_TYPE_def)
  from schema_requires_a_bound [of "\<lambda>keys. Inr" ?unbounded] 2 3
  have "\<exists>e. CONDITION_SCHEMA (\<lambda>keys. Inr) ?unbounded = Inl e"
    by blast
  with 1 example_config_simps(2) show ?thesis
    by blast
qed

end
